theory Spec2Isabelle
  imports Main "HOL-Library.AList"
begin

section \<open>The page-break block module and the native audio player\<close>

text \<open>
  The development embeds two JavaScript modules of the block library: the page-break
  block's \<^verbatim>\<open>index.js\<close> (the exported \<^verbatim>\<open>name\<close> and \<^verbatim>\<open>settings\<close>) and the
  native audio \<^verbatim>\<open>Player\<close> component (its render function, the \<^verbatim>\<open>onPressListen\<close>
  handler and the two fullscreen callbacks).

  JavaScript strings are modelled as \<^typ>\<open>string\<close>; a character outside ASCII stands
  for its UTF-8 bytes. The separator \<^verbatim>\<open>'.'\<close> is a single byte that never occurs inside
  a multi-byte sequence, so splitting and joining on it agree with the source.
  A prop that may be absent (\<^verbatim>\<open>undefined\<close>) is a \<^typ>\<open>string option\<close>; it is
  truthy when it is \<open>Some s\<close> with \<open>s\<close> not empty.
\<close>

subsection \<open>JavaScript values and built-ins\<close>

text \<open>
  \<^verbatim>\<open>String.prototype.split\<close> with a one-character separator and no limit: the
  string is cut at every occurrence of the separator, so \<open>n\<close> occurrences give
  \<open>n + 1\<close> segments and the empty string gives one empty segment.
\<close>

fun split :: "char \<Rightarrow> string \<Rightarrow> string list" where
  "split sep [] = [[]]"
| "split sep (c # cs) =
     (if c = sep then [] # split sep cs
      else (case split sep cs of [] \<Rightarrow> [[c]] | w # ws \<Rightarrow> (c # w) # ws))"

text \<open>\<^verbatim>\<open>Array.prototype.join\<close> on an array of strings.\<close>

fun join :: "string \<Rightarrow> string list \<Rightarrow> string" where
  "join sep [] = []"
| "join sep [x] = x"
| "join sep (x # y # ys) = x @ sep @ join sep (y # ys)"

text \<open>
  \<^verbatim>\<open>Array.prototype.pop\<close>: the removed last element (\<^verbatim>\<open>undefined\<close>, here
  \<open>None\<close>, on an empty array) and the array that remains.
\<close>

definition pop :: "'a list \<Rightarrow> 'a option \<times> 'a list" where
  "pop xs = (if xs = [] then (None, []) else (Some (last xs), butlast xs))"

text \<open>A method call on \<^verbatim>\<open>undefined\<close> raises a \<^verbatim>\<open>TypeError\<close>.\<close>

datatype error = TypeError

text \<open>
  A style object is a list of properties in insertion order. Object spread
  \<^verbatim>\<open>{ ...a, ...b }\<close> copies the properties of \<open>a\<close> and then assigns those of
  \<open>b\<close> in order: an existing key keeps its place and takes the new value, a new key
  is appended. Spreading \<^verbatim>\<open>false\<close> (from \<^verbatim>\<open>cond && style\<close>) adds nothing.
\<close>

type_synonym style = "(string \<times> string) list"

definition spread :: "style \<Rightarrow> style \<Rightarrow> style" where
  "spread a b = fold (\<lambda>(k, v). AList.update k v) b a"

definition and_style :: "bool \<Rightarrow> style \<Rightarrow> style" where
  "and_style c st = (if c then st else [])"

text \<open>A JSON-like value, for the exported objects; \<open>Imported\<close> is a value of another module.\<close>

datatype 'x jsvalue =
    JString string
  | JArray "'x jsvalue list"
  | JObject "(string \<times> 'x jsvalue) list"
  | Imported 'x

text \<open>Property lookup \<^verbatim>\<open>obj.key\<close>: \<open>None\<close> is \<^verbatim>\<open>undefined\<close>.\<close>

definition get_prop :: "(string \<times> 'v) list \<Rightarrow> string \<Rightarrow> 'v option" where
  "get_prop obj k = map_of obj k"

subsection \<open>The host: imported modules and platform\<close>

text \<open>The style sheet \<^verbatim>\<open>styles.scss\<close> is a parameter: one style object per class.\<close>

record stylesheet =
  container :: style
  containerDark :: style
  icon :: style
  iconDark :: style
  iconDisabled :: style
  iconDisabledDark :: style
  iconContainer :: style
  iconContainerDark :: style
  titleContainer :: style
  titleContainerIOS :: style
  titleContainerAndroid :: style
  title :: style
  titleDark :: style
  uploadFailed :: style
  uploadFailedDark :: style
  subtitle :: style
  subtitleDark :: style
  subtitleContainer :: style
  errorIcon :: style
  buttonText :: style
  buttonTextIOS :: style
  buttonTextAndroid :: style

text \<open>
  The outcome of a promise of the host: fulfilled with a value, or rejected.
\<close>

datatype 'a settled = Fulfilled 'a | Rejected

text \<open>
  What the component imports and does not define: the platform test
  \<^verbatim>\<open>Platform.OS === 'ios'\<close>, the translation function \<^verbatim>\<open>__\<close> (here \<open>i18n\<close>),
  \<^verbatim>\<open>String.prototype.toUpperCase\<close>, the style sheet, and how the promises of
  \<^verbatim>\<open>Linking.canOpenURL\<close> and \<^verbatim>\<open>Linking.openURL\<close> settle for a URL.
\<close>

record host =
  isIOS :: bool
  i18n :: "string \<Rightarrow> string"
  toUpperCase :: "string \<Rightarrow> string"
  styles :: stylesheet
  canOpenURL :: "string \<Rightarrow> bool settled"
  openURL :: "string \<Rightarrow> unit settled"

subsection \<open>The page-break block module\<close>

text \<open>
  \<^verbatim>\<open>const { name } = metadata;\<close> with \<^verbatim>\<open>metadata\<close> the object of
  \<^verbatim>\<open>block.json\<close>, a parameter.
\<close>

definition name :: "(string \<times> 'x jsvalue) list \<Rightarrow> 'x jsvalue option" where
  "name metadata = get_prop metadata ''name''"

text \<open>The values imported by the module: the icon, the transforms, edit and save.\<close>

datatype import = PageBreakIcon | Transforms | Edit | Save

definition settings :: "(string \<Rightarrow> string) \<Rightarrow> (string \<times> import jsvalue) list" where
  "settings tr =
     [(''title'', JString (tr ''Page Break'')),
      (''description'', JString (tr ''Separate your content into a multi-page experience.'')),
      (''icon'', Imported PageBreakIcon),
      (''keywords'', JArray [JString (tr ''next page''), JString (tr ''pagination'')]),
      (''example'', JObject []),
      (''transforms'', Imported Transforms),
      (''edit'', Imported Edit),
      (''save'', Imported Save)]"

text \<open>
  The module's exports: \<^verbatim>\<open>export { metadata, name }\<close> and
  \<^verbatim>\<open>export const settings\<close>. An export may be \<^verbatim>\<open>undefined\<close> (\<open>None\<close>).
\<close>

definition exports ::
  "(string \<times> import jsvalue) list \<Rightarrow> (string \<Rightarrow> string) \<Rightarrow> (string \<times> import jsvalue option) list" where
  "exports metadata tr =
     [(''metadata'', Some (JObject metadata)),
      (''name'', name metadata),
      (''settings'', Some (JObject (settings tr)))]"

subsection \<open>The Player component: props, state, effects\<close>

record props =
  getStylesFromColorScheme :: "style \<Rightarrow> style \<Rightarrow> style"
  source :: "string option"
  isUploadInProgress :: bool
  fileName :: "string option"
  isUploadFailed :: bool

text \<open>
  The state of a mounted component: the \<^verbatim>\<open>paused\<close> flag of \<^verbatim>\<open>useState\<close> and
  whether \<^verbatim>\<open>this.player\<close> holds a reference.
\<close>

record state =
  paused :: bool
  player :: bool

definition initial :: state where
  "initial = \<lparr>paused = True, player = False\<rparr>"

text \<open>What a handler does to the outside, in order.\<close>

datatype effect =
    PresentFullscreenPlayer
  | CanOpenURL string
  | OpenURL string
  | Alert string string

text \<open>
  A promise chain: the effects performed until it settles, and how it settles.
  \<open>then_p\<close> and \<open>catch_p\<close> are \<^verbatim>\<open>.then(f)\<close> and \<^verbatim>\<open>.catch(g)\<close>: the callback
  runs only on fulfilment (on rejection), and the chain takes the settlement of the
  promise the callback returns; a callback that returns \<^verbatim>\<open>undefined\<close> returns
  \<open>resolved\<close>.
\<close>

type_synonym 'a promise = "effect list \<times> 'a settled"

definition resolved :: "unit promise" where
  "resolved = ([], Fulfilled ())"

definition then_p :: "'a promise \<Rightarrow> ('a \<Rightarrow> 'b promise) \<Rightarrow> 'b promise" where
  "then_p p f =
     (case p of
        (es, Fulfilled v) \<Rightarrow> (case f v of (es', r) \<Rightarrow> (es @ es', r))
      | (es, Rejected) \<Rightarrow> (es, Rejected))"

definition catch_p :: "unit promise \<Rightarrow> (unit \<Rightarrow> unit promise) \<Rightarrow> unit promise" where
  "catch_p p g =
     (case p of
        (es, Fulfilled v) \<Rightarrow> (es, Fulfilled v)
      | (es, Rejected) \<Rightarrow> (case g () of (es', r) \<Rightarrow> (es @ es', r)))"

definition Linking_canOpenURL :: "host \<Rightarrow> string \<Rightarrow> bool promise" where
  "Linking_canOpenURL h url = ([CanOpenURL url], canOpenURL h url)"

definition Linking_openURL :: "host \<Rightarrow> string \<Rightarrow> unit promise" where
  "Linking_openURL h url = ([OpenURL url], openURL h url)"

definition Alert_alert :: "string \<Rightarrow> string \<Rightarrow> unit promise" where
  "Alert_alert t m = ([Alert t m], Fulfilled ())"

subsection \<open>The Player component: the press handler\<close>

text \<open>
  The chain \<^verbatim>\<open>Linking.canOpenURL(source).then(...).catch(...)\<close> of
  \<^verbatim>\<open>onPressListen\<close>.
\<close>

definition listen_chain :: "host \<Rightarrow> string \<Rightarrow> unit promise" where
  "listen_chain h src =
     catch_p
       (then_p (Linking_canOpenURL h src)
          (\<lambda>supported.
             if \<not> supported then
               Alert_alert (i18n h ''Problem opening the audio'')
                 (i18n h ''No application can handle this request.'')
             else Linking_openURL h src))
       (\<lambda>_. Alert_alert (i18n h ''Problem opening the audio'')
                (i18n h ''An unknown error occurred. Please try again.''))"

text \<open>
  \<^verbatim>\<open>onPressListen\<close>: the effects the press causes, up to the settlement of the
  chain it starts. The handler assigns neither \<^verbatim>\<open>paused\<close> nor \<^verbatim>\<open>this.player\<close>.
\<close>

definition onPressListen :: "host \<Rightarrow> props \<Rightarrow> state \<Rightarrow> effect list" where
  "onPressListen h p s =
     (case source p of
        None \<Rightarrow> []
      | Some src \<Rightarrow>
          if src = [] then []
          else if isIOS h \<and> player s then [PresentFullscreenPlayer]
          else fst (listen_chain h src))"

subsection \<open>The Player component: rendering\<close>

definition isDisabled :: "props \<Rightarrow> bool" where
  "isDisabled p = (isUploadFailed p \<or> isUploadInProgress p)"

text \<open>
  The variables \<^verbatim>\<open>title\<close> and \<^verbatim>\<open>extension\<close>, as a pair. \<^verbatim>\<open>parts.pop()\<close>
  on an empty array would give \<^verbatim>\<open>undefined\<close>, and \<^verbatim>\<open>.toUpperCase()\<close> on it
  raises.
\<close>

definition title_extension :: "host \<Rightarrow> string option \<Rightarrow> error + (string \<times> string)" where
  "title_extension h fn =
     (case fn of
        None \<Rightarrow> Inr ([], [])
      | Some f \<Rightarrow>
          if f = [] then Inr ([], [])
          else (case pop (split CHR ''.'' f) of
                  (None, parts) \<Rightarrow> Inl TypeError
                | (Some e, parts) \<Rightarrow> Inr (join ''.'' parts, toUpperCase h e)))"

text \<open>The character U+2026 of the message \<^verbatim>\<open>Uploading...\<close>, in UTF-8.\<close>

definition ellipsis :: string where
  "ellipsis = [CHR 0xE2, CHR 0x80, CHR 0xA6]"

definition getSubtitleValue :: "host \<Rightarrow> props \<Rightarrow> string \<Rightarrow> string" where
  "getSubtitleValue h p extension =
     (if isUploadInProgress p then i18n h (''Uploading'' @ ellipsis)
      else if isUploadFailed p then
        i18n h ''Failed to insert audio file. Please tap for options.''
      else extension @ i18n h '' audio file'')"

text \<open>The constant \<^verbatim>\<open>buttonTextStyle\<close> of the render function.\<close>

definition buttonTextStyle :: "host \<Rightarrow> style" where
  "buttonTextStyle h =
     spread (buttonText (styles h))
       (if isIOS h then buttonTextIOS (styles h) else buttonTextAndroid (styles h))"

text \<open>The Listen control and the video player element of the rendered tree.\<close>

record listen_control =
  accessibilityLabel :: string
  accessibilityRole :: string
  accessibilityHint :: string
  textStyle :: style
  label :: string

record video_player =
  uri :: "string option"
  videoPaused :: bool
  controls :: bool
  ignoreSilentSwitch :: string

text \<open>
  The rendered tree. An element under a condition (\<^verbatim>\<open>cond && <X/>\<close>) is an
  option: the warning icon, with its style, and the Listen control.
\<close>

record view =
  containerStyle :: style
  iconContainerStyle :: style
  finalIconStyle :: style
  titleContainerStyle :: style
  titleStyle :: style
  titleText :: string
  subtitleContainerStyle :: style
  warningIconStyle :: "style option"
  finalSubtitleStyle :: style
  subtitleText :: string
  listen :: "listen_control option"
  video :: video_player

definition render :: "host \<Rightarrow> props \<Rightarrow> state \<Rightarrow> error + view" where
  "render h p s =
     (let st = styles h;
          getStyles = getStylesFromColorScheme p;
          iconStyle = getStyles (icon st) (iconDark st);
          iconDisabledStyle = getStyles (iconDisabled st) (iconDisabledDark st);
          uploadFailedStyle = getStyles (uploadFailed st) (uploadFailedDark st);
          subtitleStyle = getStyles (subtitle st) (subtitleDark st)
      in case title_extension h (fileName p) of
           Inl e \<Rightarrow> Inl e
         | Inr (ttl, ext) \<Rightarrow>
             Inr \<lparr>containerStyle = getStyles (container st) (containerDark st),
                  iconContainerStyle = getStyles (iconContainer st) (iconContainerDark st),
                  finalIconStyle = spread iconStyle (and_style (isDisabled p) iconDisabledStyle),
                  titleContainerStyle =
                    spread (titleContainer st)
                      (if isIOS h then titleContainerIOS st else titleContainerAndroid st),
                  titleStyle = getStyles (stylesheet.title st) (titleDark st),
                  titleText = ttl,
                  subtitleContainerStyle = subtitleContainer st,
                  warningIconStyle =
                    (if isUploadFailed p then Some (spread (errorIcon st) uploadFailedStyle)
                     else None),
                  finalSubtitleStyle =
                    spread subtitleStyle (and_style (isUploadFailed p) uploadFailedStyle),
                  subtitleText = getSubtitleValue h p ext,
                  listen =
                    (if \<not> isDisabled p then
                       Some \<lparr>accessibilityLabel = i18n h ''Audio Player'',
                             accessibilityRole = ''button'',
                             accessibilityHint = i18n h ''Double tap to listen the audio file'',
                             textStyle = buttonTextStyle h,
                             label = i18n h ''Listen''\<rparr>
                     else None),
                  video = \<lparr>uri = source p, videoPaused = paused s, controls = False,
                            ignoreSilentSwitch = ''ignore''\<rparr>\<rparr>)"

subsection \<open>The Player component: events\<close>

text \<open>
  What can happen to a mounted component: a press of the Listen control, the
  \<^verbatim>\<open>ref\<close> callback of the video player (with or without a reference), and the two
  fullscreen callbacks. A press reaches \<^verbatim>\<open>onPressListen\<close> only through the
  Listen control of the rendered tree, which holds the handler.
\<close>

datatype event =
    PressListen
  | Ref bool
  | FullscreenPlayerWillPresent
  | FullscreenPlayerDidDismiss

definition handle :: "host \<Rightarrow> props \<Rightarrow> state \<Rightarrow> event \<Rightarrow> state \<times> effect list" where
  "handle h p s ev =
     (case ev of
        PressListen \<Rightarrow>
          (case render h p s of
             Inl e \<Rightarrow> (s, [])
           | Inr v \<Rightarrow>
               (case listen v of
                  None \<Rightarrow> (s, [])
                | Some c \<Rightarrow> (s, onPressListen h p s)))
      | Ref r \<Rightarrow> (s\<lparr>player := r\<rparr>, [])
      | FullscreenPlayerWillPresent \<Rightarrow> (s\<lparr>paused := False\<rparr>, [])
      | FullscreenPlayerDidDismiss \<Rightarrow> (s\<lparr>paused := True\<rparr>, []))"

text \<open>A history of the component: each event comes with the props of that moment.\<close>

fun run :: "host \<Rightarrow> state \<Rightarrow> (props \<times> event) list \<Rightarrow> state \<times> effect list" where
  "run h s [] = (s, [])"
| "run h s ((p, ev) # rest) =
     (case handle h p s ev of
        (s', es) \<Rightarrow> (case run h s' rest of (s'', es') \<Rightarrow> (s'', es @ es')))"

subsection \<open>Observations on effects and rendered trees\<close>

text \<open>The number of URL-capability checks among the effects of a handler.\<close>

fun is_check :: "effect \<Rightarrow> bool" where
  "is_check (CanOpenURL u) = True"
| "is_check e = False"

definition count_checks :: "effect list \<Rightarrow> nat" where
  "count_checks es = length (filter is_check es)"

text \<open>
  The style objects of a rendered tree (the style of the warning icon and the text
  style of the Listen control are absent with their elements) and the subtitle text.
\<close>

definition derived :: "view \<Rightarrow> style list \<times> style option \<times> style option \<times> string" where
  "derived v =
     ([containerStyle v, finalIconStyle v, iconContainerStyle v, titleContainerStyle v,
       titleStyle v, finalSubtitleStyle v],
      warningIconStyle v,
      map_option textStyle (listen v),
      subtitleText v)"

text \<open>The fullscreen callbacks among a list of events.\<close>

definition fullscreen_events :: "event list \<Rightarrow> event list" where
  "fullscreen_events evs =
     filter (\<lambda>ev. ev = FullscreenPlayerWillPresent \<or> ev = FullscreenPlayerDidDismiss) evs"

subsection \<open>The specification's description of title and extension\<close>

text \<open>
  Following the specification's words: the substring after the last occurrence of
  a character, and everything before that last occurrence.
\<close>

definition after_last :: "char \<Rightarrow> string \<Rightarrow> string" where
  "after_last c s = rev (takeWhile (\<lambda>x. x \<noteq> c) (rev s))"

definition before_last :: "char \<Rightarrow> string \<Rightarrow> string" where
  "before_last c s = rev (drop 1 (dropWhile (\<lambda>x. x \<noteq> c) (rev s)))"

subsection \<open>A concrete host and concrete props, for the examples\<close>

definition ascii_upper :: "string \<Rightarrow> string" where
  "ascii_upper =
     map (\<lambda>c. if 97 \<le> (of_char c :: nat) \<and> (of_char c :: nat) \<le> 122
              then char_of (of_char c - (32 :: nat)) else c)"

definition example_styles :: stylesheet where
  "example_styles =
     \<lparr>container = [(''padding'', ''8'')], containerDark = [(''backgroundColor'', ''black'')],
      icon = [(''fill'', ''gray'')], iconDark = [(''fill'', ''white'')],
      iconDisabled = [(''fill'', ''silver'')], iconDisabledDark = [(''fill'', ''dimgray'')],
      iconContainer = [(''width'', ''24'')], iconContainerDark = [],
      titleContainer = [(''flex'', ''1'')], titleContainerIOS = [(''padding'', ''6'')],
      titleContainerAndroid = [(''padding'', ''4'')],
      title = [(''color'', ''black'')], titleDark = [(''color'', ''white'')],
      uploadFailed = [(''color'', ''red'')], uploadFailedDark = [(''color'', ''salmon'')],
      subtitle = [(''color'', ''gray''), (''fontSize'', ''12'')], subtitleDark = [(''color'', ''silver'')],
      subtitleContainer = [(''flexDirection'', ''row'')], errorIcon = [(''marginRight'', ''2'')],
      buttonText = [(''color'', ''blue'')], buttonTextIOS = [(''fontWeight'', ''600'')],
      buttonTextAndroid = [(''fontWeight'', ''500'')]\<rparr>"

definition example_host :: "bool \<Rightarrow> (string \<Rightarrow> bool settled) \<Rightarrow> (string \<Rightarrow> unit settled) \<Rightarrow> host" where
  "example_host ios can opn =
     \<lparr>isIOS = ios, i18n = (\<lambda>s. s), toUpperCase = ascii_upper, styles = example_styles,
      canOpenURL = can, openURL = opn\<rparr>"

text \<open>The light colour scheme returns the light style; the dark one spreads the dark style over it.\<close>

definition light_scheme :: "style \<Rightarrow> style \<Rightarrow> style" where
  "light_scheme l d = l"

definition dark_scheme :: "style \<Rightarrow> style \<Rightarrow> style" where
  "dark_scheme l d = spread l d"

definition example_props :: "string option \<Rightarrow> string option \<Rightarrow> bool \<Rightarrow> bool \<Rightarrow> props" where
  "example_props src fn progress failed =
     \<lparr>getStylesFromColorScheme = light_scheme, source = src, isUploadInProgress = progress,
      fileName = fn, isUploadFailed = failed\<rparr>"

section \<open>Properties of the built-ins\<close>

lemma split_not_Nil: "split c s \<noteq> []"
  by (induction s) (auto split: list.splits)

lemma split_no_sep: "c \<notin> set s \<Longrightarrow> split c s = [s]"
  by (induction s) auto

lemma split_Cons_other: "x \<noteq> c \<Longrightarrow> split c (x # s) = (x # hd (split c s)) # tl (split c s)"
  using split_not_Nil [of c s] by (cases "split c s") auto

lemma split_at_sep: "split c (t @ c # e) = split c t @ split c e"
proof (induction t)
  case Nil
  show ?case by simp
next
  case (Cons x t)
  show ?case
  proof (cases "x = c")
    case True
    with Cons show ?thesis by simp
  next
    case False
    obtain w ws where tw: "split c t = w # ws"
      using split_not_Nil [of c t] by (cases "split c t") auto
    with False Cons show ?thesis by simp
  qed
qed

lemma join_Cons_char: "join sep ((x # w) # ws) = x # join sep (w # ws)"
  by (cases ws) auto

lemma join_split: "join [c] (split c s) = s"
proof (induction s)
  case Nil
  show ?case by simp
next
  case (Cons x s)
  obtain w ws where tw: "split c s = w # ws"
    using split_not_Nil [of c s] by (cases "split c s") auto
  show ?case
  proof (cases "x = c")
    case True
    with Cons tw show ?thesis by simp
  next
    case False
    with Cons tw show ?thesis by (simp add: join_Cons_char)
  qed
qed

lemma pop_snoc: "pop (xs @ [x]) = (Some x, xs)"
  by (simp add: pop_def)

lemma split_last_segment: "c \<notin> set e \<Longrightarrow> split c (t @ c # e) = split c t @ [e]"
  by (simp add: split_at_sep split_no_sep)

lemma after_last_decomp: "c \<notin> set e \<Longrightarrow> after_last c (t @ c # e) = e"
  by (simp add: after_last_def takeWhile_append)

lemma before_last_decomp: "c \<notin> set e \<Longrightarrow> before_last c (t @ c # e) = t"
  by (simp add: before_last_def dropWhile_append)

lemma after_last_no_sep: "c \<notin> set s \<Longrightarrow> after_last c s = s"
proof -
  assume "c \<notin> set s"
  then have "takeWhile (\<lambda>x. x \<noteq> c) (rev s) = rev s"
    by auto
  then show ?thesis unfolding after_last_def by (simp only: rev_rev_ident)
qed

lemma before_last_no_sep: "c \<notin> set s \<Longrightarrow> before_last c s = []"
proof -
  assume "c \<notin> set s"
  then have "dropWhile (\<lambda>x. x \<noteq> c) (rev s) = []"
    by auto
  then show ?thesis unfolding before_last_def by (simp only: drop_Nil rev.simps)
qed

lemma pop_split:
  "pop (split c s) = (Some (after_last c s), butlast (split c s)) \<and>
   join [c] (butlast (split c s)) = before_last c s"
proof (cases "c \<in> set s")
  case False
  then show ?thesis
    by (simp add: split_no_sep pop_def after_last_no_sep before_last_no_sep)
next
  case True
  then obtain t e where s: "s = t @ c # e" and e: "c \<notin> set e"
    using split_list_last [of c s] by blast
  show ?thesis
    unfolding s using e
    by (simp add: split_last_segment pop_snoc after_last_decomp before_last_decomp
        join_split butlast_append)
qed

section \<open>Properties of the render function and the handlers\<close>

lemma title_extension_total:
  "title_extension h fn =
     (case fn of None \<Rightarrow> Inr ([], [])
      | Some f \<Rightarrow> if f = [] then Inr ([], [])
                  else Inr (before_last CHR ''.'' f, toUpperCase h (after_last CHR ''.'' f)))"
  using pop_split [of "CHR ''.''"]
  by (simp add: title_extension_def split: option.splits)

lemma render_title_extension:
  "\<exists>v ext. render h p s = Inr v \<and> title_extension h (fileName p) = Inr (titleText v, ext) \<and>
     subtitleText v = getSubtitleValue h p ext"
  by (cases "fileName p") (simp_all add: render_def Let_def title_extension_total)

lemma render_listen:
  "render h p s = Inr v \<Longrightarrow> (listen v = None) = isDisabled p"
  by (auto simp: render_def Let_def split: sum.splits prod.splits if_splits)

lemma handle_PressListen:
  "handle h p s PressListen = (s, if isDisabled p then [] else onPressListen h p s)"
proof -
  obtain v where v: "render h p s = Inr v"
    using render_title_extension [of h p s] by blast
  with render_listen [OF v] show ?thesis
    by (cases "listen v") (simp_all add: handle_def)
qed

lemma listen_chain_cases:
  "listen_chain h src =
     (case canOpenURL h src of
        Rejected \<Rightarrow>
          ([CanOpenURL src,
            Alert (i18n h ''Problem opening the audio'')
              (i18n h ''An unknown error occurred. Please try again.'')], Fulfilled ())
      | Fulfilled supported \<Rightarrow>
          if \<not> supported then
            ([CanOpenURL src,
              Alert (i18n h ''Problem opening the audio'')
                (i18n h ''No application can handle this request.'')], Fulfilled ())
          else (case openURL h src of
                  Fulfilled u \<Rightarrow> ([CanOpenURL src, OpenURL src], Fulfilled ())
                | Rejected \<Rightarrow>
                    ([CanOpenURL src, OpenURL src,
                      Alert (i18n h ''Problem opening the audio'')
                        (i18n h ''An unknown error occurred. Please try again.'')],
                     Fulfilled ())))"
  by (simp add: listen_chain_def catch_p_def then_p_def Linking_canOpenURL_def
      Linking_openURL_def Alert_alert_def split: settled.splits)

section \<open>Title, extension and subtitle\<close>

text \<open>
  Claim C2. For a non-empty \<^verbatim>\<open>fileName\<close> the extension is the part after the last
  \<^verbatim>\<open>'.'\<close> in upper case and the title is everything before that last \<^verbatim>\<open>'.'\<close>,
  which is the segments but the last joined with \<^verbatim>\<open>'.'\<close>; for an empty or absent
  \<^verbatim>\<open>fileName\<close> both are empty. The computation raises no error, the title is the
  title text of the rendered tree and the extension is the one the subtitle is made from.
\<close>

theorem title_and_extension_of_fileName:
  "(fileName p = Some f \<and> f \<noteq> [] \<longrightarrow>
      title_extension h (fileName p) =
        Inr (before_last CHR ''.'' f, toUpperCase h (after_last CHR ''.'' f)) \<and>
      before_last CHR ''.'' f = join ''.'' (butlast (split CHR ''.'' f))) \<and>
   (fileName p = None \<or> fileName p = Some [] \<longrightarrow>
      title_extension h (fileName p) = Inr ([], [])) \<and>
   (\<exists>v ext. render h p s = Inr v \<and>
      title_extension h (fileName p) = Inr (titleText v, ext) \<and>
      subtitleText v = getSubtitleValue h p ext)"
  using pop_split [of "CHR ''.''" f] render_title_extension [of h p s]
  by (auto simp: title_extension_total)

theorem title_and_extension_of_fileName_witness:
  "fileName (example_props None (Some ''my.song.mp3'') False False) = Some ''my.song.mp3'' \<and>
   ''my.song.mp3'' \<noteq> [] \<and>
   title_extension (example_host False (\<lambda>u. Rejected) (\<lambda>u. Rejected))
     (fileName (example_props None (Some ''my.song.mp3'') False False)) =
     Inr (''my.song'', ''MP3'') \<and>
   fileName (example_props None None False False) = None \<and>
   title_extension (example_host False (\<lambda>u. Rejected) (\<lambda>u. Rejected))
     (fileName (example_props None None False False)) = Inr ([], [])"
proof -
  let ?h = "example_host False (\<lambda>u. Rejected) (\<lambda>u. Rejected)"
  let ?p = "example_props None (Some ''my.song.mp3'') False False"
  let ?q = "example_props None None False False"
  have fp: "fileName ?p = Some ''my.song.mp3''" and fq: "fileName ?q = None"
    by (simp_all add: example_props_def)
  have b: "before_last CHR ''.'' ''my.song.mp3'' = ''my.song''"
    by (simp add: before_last_def)
  have a: "toUpperCase ?h (after_last CHR ''.'' ''my.song.mp3'') = ''MP3''"
    by code_simp
  from title_and_extension_of_fileName [of ?p "''my.song.mp3''" ?h initial] fp
  have "title_extension ?h (fileName ?p) = Inr (''my.song'', ''MP3'')"
    unfolding a b by simp
  moreover from title_and_extension_of_fileName [of ?q "[]" ?h initial] fq
  have "title_extension ?h (fileName ?q) = Inr ([], [])"
    by simp
  ultimately show ?thesis using fp fq by simp
qed

text \<open>
  Claim C8. For a \<^verbatim>\<open>fileName\<close> without \<^verbatim>\<open>'.'\<close> the title is empty and the extension
  is the whole file name in upper case, so that the subtitle (when no upload is in
  progress or has failed) shows the whole name before \<^verbatim>\<open>' audio file'\<close>. For the empty
  name this asks of the host that the upper case of the empty string is empty.
\<close>

theorem fileName_without_dot:
  assumes "fileName p = Some f" and "CHR ''.'' \<notin> set f"
    and "f = [] \<longrightarrow> toUpperCase h [] = []"
  shows "title_extension h (fileName p) = Inr ([], toUpperCase h f) \<and>
    (\<exists>v. render h p s = Inr v \<and> titleText v = [] \<and>
       (\<not> isUploadInProgress p \<and> \<not> isUploadFailed p \<longrightarrow>
          subtitleText v = toUpperCase h f @ i18n h '' audio file''))"
proof -
  have te: "title_extension h (fileName p) = Inr ([], toUpperCase h f)"
    using assms
    by (simp add: title_extension_total after_last_no_sep before_last_no_sep)
  obtain v ext where v: "render h p s = Inr v"
    and t: "title_extension h (fileName p) = Inr (titleText v, ext)"
    and sub: "subtitleText v = getSubtitleValue h p ext"
    using render_title_extension [of h p s] by blast
  from te t have "titleText v = []" and "ext = toUpperCase h f" by simp_all
  with v sub show ?thesis using te by (simp add: getSubtitleValue_def)
qed

theorem fileName_without_dot_witness:
  "fileName (example_props None (Some ''song'') False False) = Some ''song'' \<and>
   CHR ''.'' \<notin> set ''song'' \<and>
   title_extension (example_host False (\<lambda>u. Rejected) (\<lambda>u. Rejected))
     (fileName (example_props None (Some ''song'') False False)) = Inr ([], ''SONG'') \<and>
   (\<exists>v. render (example_host False (\<lambda>u. Rejected) (\<lambda>u. Rejected))
          (example_props None (Some ''song'') False False) initial = Inr v \<and>
        titleText v = [] \<and> subtitleText v = ''SONG audio file'')"
proof -
  let ?h = "example_host False (\<lambda>u. Rejected) (\<lambda>u. Rejected)"
  let ?p = "example_props None (Some ''song'') False False"
  have fp: "fileName ?p = Some ''song''" by (simp add: example_props_def)
  have nd: "CHR ''.'' \<notin> set ''song''" by simp
  have ne: "''song'' = [] \<longrightarrow> toUpperCase ?h [] = []" by simp
  have up: "toUpperCase ?h ''song'' = ''SONG''" by code_simp
  have fl: "\<not> isUploadInProgress ?p \<and> \<not> isUploadFailed ?p" "i18n ?h '' audio file'' = '' audio file''"
    by (simp_all add: example_props_def example_host_def)
  from fileName_without_dot [OF fp nd ne, of initial] show ?thesis
    unfolding up using fp nd fl by simp
qed

section \<open>The press of the Listen control\<close>

text \<open>
  Claim C1. A press with a non-empty source that does not take the iOS fullscreen
  path raises an alert in exactly two cases: the URL-capability check is fulfilled
  with false (title \<^verbatim>\<open>Problem opening the audio\<close>, message
  \<^verbatim>\<open>No application can handle this request.\<close>), or the check or the open that follows
  it is rejected (same title, message \<^verbatim>\<open>An unknown error occurred. Please try again.\<close>).
  When the check is fulfilled with true and the open is fulfilled, there is no alert.
  The four cases are all the ways the two promises settle, and the effects listed are
  all the effects of the press. The texts are the translations \<^verbatim>\<open>__\<close> gives.
\<close>

theorem alerts_of_press:
  assumes "source p = Some src" and "src \<noteq> []" and "\<not> (isIOS h \<and> player s)"
  shows
    "(canOpenURL h src = Fulfilled False \<longrightarrow>
        onPressListen h p s =
          [CanOpenURL src,
           Alert (i18n h ''Problem opening the audio'')
             (i18n h ''No application can handle this request.'')]) \<and>
     (canOpenURL h src = Rejected \<longrightarrow>
        onPressListen h p s =
          [CanOpenURL src,
           Alert (i18n h ''Problem opening the audio'')
             (i18n h ''An unknown error occurred. Please try again.'')]) \<and>
     (canOpenURL h src = Fulfilled True \<and> openURL h src = Rejected \<longrightarrow>
        onPressListen h p s =
          [CanOpenURL src, OpenURL src,
           Alert (i18n h ''Problem opening the audio'')
             (i18n h ''An unknown error occurred. Please try again.'')]) \<and>
     (canOpenURL h src = Fulfilled True \<and> openURL h src = Fulfilled () \<longrightarrow>
        onPressListen h p s = [CanOpenURL src, OpenURL src])"
proof -
  from assms have "onPressListen h p s = fst (listen_chain h src)"
    by (auto simp: onPressListen_def)
  then show ?thesis by (simp add: listen_chain_cases)
qed

theorem alerts_of_press_witness:
  "source (example_props (Some ''file:a.mp3'') None False False) = Some ''file:a.mp3'' \<and>
   ''file:a.mp3'' \<noteq> [] \<and>
   \<not> (isIOS (example_host False (\<lambda>u. Fulfilled False) (\<lambda>u. Rejected)) \<and> player initial) \<and>
   onPressListen (example_host False (\<lambda>u. Fulfilled False) (\<lambda>u. Rejected))
       (example_props (Some ''file:a.mp3'') None False False) initial =
     [CanOpenURL ''file:a.mp3'',
      Alert ''Problem opening the audio'' ''No application can handle this request.''] \<and>
   onPressListen (example_host False (\<lambda>u. Rejected) (\<lambda>u. Rejected))
       (example_props (Some ''file:a.mp3'') None False False) initial =
     [CanOpenURL ''file:a.mp3'',
      Alert ''Problem opening the audio'' ''An unknown error occurred. Please try again.''] \<and>
   onPressListen (example_host False (\<lambda>u. Fulfilled True) (\<lambda>u. Rejected))
       (example_props (Some ''file:a.mp3'') None False False) initial =
     [CanOpenURL ''file:a.mp3'', OpenURL ''file:a.mp3'',
      Alert ''Problem opening the audio'' ''An unknown error occurred. Please try again.''] \<and>
   onPressListen (example_host False (\<lambda>u. Fulfilled True) (\<lambda>u. Fulfilled ()))
       (example_props (Some ''file:a.mp3'') None False False) initial =
     [CanOpenURL ''file:a.mp3'', OpenURL ''file:a.mp3'']"
proof -
  let ?p = "example_props (Some ''file:a.mp3'') None False False"
  have src: "source ?p = Some ''file:a.mp3''" by (simp add: example_props_def)
  have ne: "''file:a.mp3'' \<noteq> []" by simp
  have ios: "\<not> (isIOS (example_host False c opn) \<and> player initial)" for c opn
    by (simp add: example_host_def)
  note t = alerts_of_press [OF src ne ios]
  from t [of "\<lambda>u. Fulfilled False" "\<lambda>u. Rejected"] t [of "\<lambda>u. Rejected" "\<lambda>u. Rejected"]
    t [of "\<lambda>u. Fulfilled True" "\<lambda>u. Rejected"] t [of "\<lambda>u. Fulfilled True" "\<lambda>u. Fulfilled ()"]
  show ?thesis using src ios by (simp add: example_host_def)
qed

text \<open>
  Claim C3. A press starts at most one URL-capability check, and that check is on the
  source. When it starts one, what follows is the success branch (the open of the URL,
  or the alert that no application can handle the request) or the failure branch (the
  alert of an unknown error). On iOS with a player reference the press presents the
  fullscreen player and starts no check; with an empty or absent source it does nothing.
\<close>

theorem one_check_per_press:
  "count_checks (onPressListen h p s) \<le> 1 \<and>
   (\<forall>u. CanOpenURL u \<in> set (onPressListen h p s) \<longrightarrow> source p = Some u) \<and>
   (\<forall>src. source p = Some src \<and> src \<noteq> [] \<and> \<not> (isIOS h \<and> player s) \<longrightarrow>
      (\<exists>rest. onPressListen h p s = CanOpenURL src # rest \<and>
         (case canOpenURL h src of
            Fulfilled supported \<Rightarrow>
              if supported then
                rest = [OpenURL src] \<or>
                rest = [OpenURL src,
                        Alert (i18n h ''Problem opening the audio'')
                          (i18n h ''An unknown error occurred. Please try again.'')]
              else rest = [Alert (i18n h ''Problem opening the audio'')
                             (i18n h ''No application can handle this request.'')]
          | Rejected \<Rightarrow>
              rest = [Alert (i18n h ''Problem opening the audio'')
                        (i18n h ''An unknown error occurred. Please try again.'')]))) \<and>
   (\<forall>src. source p = Some src \<and> src \<noteq> [] \<and> isIOS h \<and> player s \<longrightarrow>
      onPressListen h p s = [PresentFullscreenPlayer] \<and>
      count_checks (onPressListen h p s) = 0) \<and>
   (source p = None \<or> source p = Some [] \<longrightarrow> onPressListen h p s = [])"
proof -
  have tl_cases: "fst (listen_chain h src) = CanOpenURL src #
      (case canOpenURL h src of
         Fulfilled supported \<Rightarrow>
           if supported then
             (case openURL h src of
                Fulfilled u \<Rightarrow> [OpenURL src]
              | Rejected \<Rightarrow>
                  [OpenURL src,
                   Alert (i18n h ''Problem opening the audio'')
                     (i18n h ''An unknown error occurred. Please try again.'')])
           else [Alert (i18n h ''Problem opening the audio'')
                   (i18n h ''No application can handle this request.'')]
       | Rejected \<Rightarrow>
           [Alert (i18n h ''Problem opening the audio'')
              (i18n h ''An unknown error occurred. Please try again.'')])" for src
    by (simp add: listen_chain_cases split: settled.splits)
  have hd_tl: "fst (listen_chain h src) = CanOpenURL src # tl (fst (listen_chain h src))" for src
    by (simp add: tl_cases)
  have eq: "onPressListen h p s =
      (case source p of None \<Rightarrow> []
       | Some src \<Rightarrow> if src = [] then []
           else if isIOS h \<and> player s then [PresentFullscreenPlayer]
           else CanOpenURL src # tl (fst (listen_chain h src)))"
    unfolding onPressListen_def using hd_tl by (cases "source p") auto
  have no_check: "filter is_check (tl (fst (listen_chain h src))) = []" for src
    by (simp add: tl_cases split: settled.splits)
  have no_check_mem: "CanOpenURL u \<notin> set (tl (fst (listen_chain h src)))" for u src
    by (simp add: tl_cases split: settled.splits)
  have c1: "count_checks (onPressListen h p s) \<le> 1"
    by (simp add: eq count_checks_def no_check split: option.splits)
  have c2: "\<forall>u. CanOpenURL u \<in> set (onPressListen h p s) \<longrightarrow> source p = Some u"
    using no_check_mem by (cases "source p") (auto simp: eq split: if_splits)
  have c3: "\<forall>src. source p = Some src \<and> src \<noteq> [] \<and> \<not> (isIOS h \<and> player s) \<longrightarrow>
      (\<exists>rest. onPressListen h p s = CanOpenURL src # rest \<and>
         (case canOpenURL h src of
            Fulfilled supported \<Rightarrow>
              if supported then
                rest = [OpenURL src] \<or>
                rest = [OpenURL src,
                        Alert (i18n h ''Problem opening the audio'')
                          (i18n h ''An unknown error occurred. Please try again.'')]
              else rest = [Alert (i18n h ''Problem opening the audio'')
                             (i18n h ''No application can handle this request.'')]
          | Rejected \<Rightarrow>
              rest = [Alert (i18n h ''Problem opening the audio'')
                        (i18n h ''An unknown error occurred. Please try again.'')]))"
  proof (intro allI impI)
    fix src assume a: "source p = Some src \<and> src \<noteq> [] \<and> \<not> (isIOS h \<and> player s)"
    then have "onPressListen h p s = CanOpenURL src # tl (fst (listen_chain h src))"
      by (auto simp: eq)
    moreover have "case canOpenURL h src of
            Fulfilled supported \<Rightarrow>
              if supported then
                tl (fst (listen_chain h src)) = [OpenURL src] \<or>
                tl (fst (listen_chain h src)) = [OpenURL src,
                        Alert (i18n h ''Problem opening the audio'')
                          (i18n h ''An unknown error occurred. Please try again.'')]
              else tl (fst (listen_chain h src)) = [Alert (i18n h ''Problem opening the audio'')
                             (i18n h ''No application can handle this request.'')]
          | Rejected \<Rightarrow>
              tl (fst (listen_chain h src)) = [Alert (i18n h ''Problem opening the audio'')
                        (i18n h ''An unknown error occurred. Please try again.'')]"
      by (simp add: tl_cases split: settled.splits)
    ultimately show "\<exists>rest. onPressListen h p s = CanOpenURL src # rest \<and>
         (case canOpenURL h src of
            Fulfilled supported \<Rightarrow>
              if supported then
                rest = [OpenURL src] \<or>
                rest = [OpenURL src,
                        Alert (i18n h ''Problem opening the audio'')
                          (i18n h ''An unknown error occurred. Please try again.'')]
              else rest = [Alert (i18n h ''Problem opening the audio'')
                             (i18n h ''No application can handle this request.'')]
          | Rejected \<Rightarrow>
              rest = [Alert (i18n h ''Problem opening the audio'')
                        (i18n h ''An unknown error occurred. Please try again.'')])"
      by blast
  qed
  have c4: "\<forall>src. source p = Some src \<and> src \<noteq> [] \<and> isIOS h \<and> player s \<longrightarrow>
      onPressListen h p s = [PresentFullscreenPlayer] \<and>
      count_checks (onPressListen h p s) = 0"
    by (simp add: eq count_checks_def)
  have c5: "source p = None \<or> source p = Some [] \<longrightarrow> onPressListen h p s = []"
    by (auto simp: eq)
  from c1 c2 c3 c4 c5 show ?thesis by blast
qed

theorem one_check_per_press_witness:
  "count_checks (onPressListen (example_host False (\<lambda>u. Fulfilled True) (\<lambda>u. Fulfilled ()))
      (example_props (Some ''file:a.mp3'') None False False) initial) = 1 \<and>
   onPressListen (example_host False (\<lambda>u. Fulfilled True) (\<lambda>u. Fulfilled ()))
      (example_props (Some ''file:a.mp3'') None False False) initial =
     [CanOpenURL ''file:a.mp3'', OpenURL ''file:a.mp3''] \<and>
   onPressListen (example_host True (\<lambda>u. Fulfilled True) (\<lambda>u. Fulfilled ()))
      (example_props (Some ''file:a.mp3'') None False False) \<lparr>paused = True, player = True\<rparr> =
     [PresentFullscreenPlayer] \<and>
   count_checks (onPressListen (example_host True (\<lambda>u. Fulfilled True) (\<lambda>u. Fulfilled ()))
      (example_props (Some ''file:a.mp3'') None False False) \<lparr>paused = True, player = True\<rparr>) = 0"
proof -
  let ?p = "example_props (Some ''file:a.mp3'') None False False"
  let ?h = "example_host False (\<lambda>u. Fulfilled True) (\<lambda>u. Fulfilled ())"
  let ?i = "example_host True (\<lambda>u. Fulfilled True) (\<lambda>u. Fulfilled ())"
  let ?s = "\<lparr>paused = True, player = True\<rparr>"
  have src: "source ?p = Some ''file:a.mp3''" by (simp add: example_props_def)
  have h: "\<not> (isIOS ?h \<and> player initial)" "canOpenURL ?h ''file:a.mp3'' = Fulfilled True"
    "openURL ?h ''file:a.mp3'' = Fulfilled ()"
    by (simp_all add: example_host_def)
  have i: "isIOS ?i \<and> player ?s" by (simp add: example_host_def)
  have ne: "''file:a.mp3'' \<noteq> []" by simp
  from one_check_per_press [of ?h ?p initial]
  have "\<forall>src. source ?p = Some src \<and> src \<noteq> [] \<and> \<not> (isIOS ?h \<and> player initial) \<longrightarrow>
      (\<exists>rest. onPressListen ?h ?p initial = CanOpenURL src # rest \<and>
         (case canOpenURL ?h src of
            Fulfilled supported \<Rightarrow>
              if supported then
                rest = [OpenURL src] \<or>
                rest = [OpenURL src,
                        Alert (i18n ?h ''Problem opening the audio'')
                          (i18n ?h ''An unknown error occurred. Please try again.'')]
              else rest = [Alert (i18n ?h ''Problem opening the audio'')
                             (i18n ?h ''No application can handle this request.'')]
          | Rejected \<Rightarrow>
              rest = [Alert (i18n ?h ''Problem opening the audio'')
                        (i18n ?h ''An unknown error occurred. Please try again.'')]))"
    by (elim conjE)
  from this [rule_format, of "''file:a.mp3''"] src ne h
  have "\<exists>rest. onPressListen ?h ?p initial = CanOpenURL ''file:a.mp3'' # rest \<and>
      (rest = [OpenURL ''file:a.mp3''] \<or>
       rest = [OpenURL ''file:a.mp3'',
               Alert (i18n ?h ''Problem opening the audio'')
                 (i18n ?h ''An unknown error occurred. Please try again.'')])"
    by simp
  then have a: "onPressListen ?h ?p initial = [CanOpenURL ''file:a.mp3'', OpenURL ''file:a.mp3'']"
    by (simp add: onPressListen_def listen_chain_cases src h)
  from one_check_per_press [of ?i ?p ?s]
  have "\<forall>src. source ?p = Some src \<and> src \<noteq> [] \<and> isIOS ?i \<and> player ?s \<longrightarrow>
      onPressListen ?i ?p ?s = [PresentFullscreenPlayer] \<and>
      count_checks (onPressListen ?i ?p ?s) = 0"
    by (elim conjE)
  from this [rule_format, of "''file:a.mp3''"] src ne i
  have b: "onPressListen ?i ?p ?s = [PresentFullscreenPlayer] \<and>
           count_checks (onPressListen ?i ?p ?s) = 0"
    by (simp add: count_checks_def)
  show ?thesis using a b by (simp add: count_checks_def)
qed

section \<open>The paused flag\<close>

lemma handle_paused:
  "paused (fst (handle h p s ev)) =
     (case ev of
        FullscreenPlayerWillPresent \<Rightarrow> False
      | FullscreenPlayerDidDismiss \<Rightarrow> True
      | _ \<Rightarrow> paused s)"
proof (cases ev)
  case PressListen
  then show ?thesis by (simp add: handle_PressListen)
qed (simp_all add: handle_def)

lemma run_Cons:
  "run h s ((p, ev) # rest) =
     (fst (run h (fst (handle h p s ev)) rest),
      snd (handle h p s ev) @ snd (run h (fst (handle h p s ev)) rest))"
  by (simp split: prod.splits)

lemma run_paused:
  "paused (fst (run h s tr)) =
     (if fullscreen_events (map snd tr) = [] then paused s
      else last (fullscreen_events (map snd tr)) = FullscreenPlayerDidDismiss)"
proof (induction tr arbitrary: s)
  case Nil
  show ?case by (simp add: fullscreen_events_def)
next
  case (Cons a tr)
  obtain p ev where a: "a = (p, ev)" by (cases a)
  show ?case
    unfolding a run_Cons fst_conv Cons.IH handle_paused
    by (cases ev) (simp_all add: fullscreen_events_def)
qed

text \<open>
  Claim C4. The \<^verbatim>\<open>paused\<close> flag starts as true; the callback for the fullscreen
  player about to present sets it to false, the callback for its dismissal sets it to
  true, and no other event (a press of the Listen control, the \<^verbatim>\<open>ref\<close> callback)
  changes it. The flag is what the video player element is given as \<^verbatim>\<open>paused\<close>.
  Over a whole history from the initial state the flag is true exactly when there
  was no fullscreen callback or the last one was the dismissal.
\<close>

theorem paused_flag:
  "paused initial = True \<and>
   paused (fst (handle h p s FullscreenPlayerWillPresent)) = False \<and>
   paused (fst (handle h p s FullscreenPlayerDidDismiss)) = True \<and>
   (ev \<noteq> FullscreenPlayerWillPresent \<and> ev \<noteq> FullscreenPlayerDidDismiss \<longrightarrow>
      paused (fst (handle h p s ev)) = paused s) \<and>
   (\<exists>v. render h p s = Inr v \<and> videoPaused (video v) = paused s) \<and>
   paused (fst (run h initial tr)) =
     (fullscreen_events (map snd tr) = [] \<or>
      last (fullscreen_events (map snd tr)) = FullscreenPlayerDidDismiss)"
proof -
  have a: "ev \<noteq> FullscreenPlayerWillPresent \<and> ev \<noteq> FullscreenPlayerDidDismiss \<longrightarrow>
      paused (fst (handle h p s ev)) = paused s"
    by (cases ev) (simp_all add: handle_paused)
  have b: "\<exists>v. render h p s = Inr v \<and> videoPaused (video v) = paused s"
    by (cases "fileName p") (simp_all add: render_def Let_def title_extension_total)
  have c: "paused (fst (run h initial tr)) =
     (fullscreen_events (map snd tr) = [] \<or>
      last (fullscreen_events (map snd tr)) = FullscreenPlayerDidDismiss)"
    by (simp add: run_paused initial_def)
  show ?thesis using a b c by (simp add: handle_paused initial_def)
qed

theorem paused_flag_witness:
  "Ref True \<noteq> FullscreenPlayerWillPresent \<and> Ref True \<noteq> FullscreenPlayerDidDismiss \<and>
   paused (fst (handle (example_host True (\<lambda>u. Rejected) (\<lambda>u. Rejected))
      (example_props (Some ''file:a.mp3'') None False False)
      \<lparr>paused = False, player = False\<rparr> (Ref True))) = False \<and>
   paused (fst (run (example_host True (\<lambda>u. Rejected) (\<lambda>u. Rejected)) initial
      [(example_props (Some ''file:a.mp3'') None False False, Ref True),
       (example_props (Some ''file:a.mp3'') None False False, PressListen),
       (example_props (Some ''file:a.mp3'') None False False, FullscreenPlayerWillPresent)])) = False"
proof -
  let ?h = "example_host True (\<lambda>u. Rejected) (\<lambda>u. Rejected)"
  let ?p = "example_props (Some ''file:a.mp3'') None False False"
  let ?s = "\<lparr>paused = False, player = False\<rparr>"
  have ne: "Ref True \<noteq> FullscreenPlayerWillPresent \<and> Ref True \<noteq> FullscreenPlayerDidDismiss"
    by simp
  from paused_flag [of ?h ?p ?s "Ref True" "[]"] ne
  have a: "paused (fst (handle ?h ?p ?s (Ref True))) = False" by simp
  from paused_flag [of ?h ?p ?s PressListen
      "[(?p, Ref True), (?p, PressListen), (?p, FullscreenPlayerWillPresent)]"]
  have b: "paused (fst (run ?h initial
      [(?p, Ref True), (?p, PressListen), (?p, FullscreenPlayerWillPresent)])) = False"
    by (simp add: fullscreen_events_def)
  show ?thesis using ne a b by simp
qed

section \<open>After a failed open\<close>

lemma listen_chain_settles: "snd (listen_chain h src) = Fulfilled ()"
  by (simp add: listen_chain_cases split: settled.splits)

lemma two_ends: "[a, b] = pre @ x # post \<Longrightarrow> x \<noteq> a \<Longrightarrow> post = []"
  by (cases pre) (auto simp: Cons_eq_append_conv)

lemma three_ends: "[a, b, c] = pre @ x # post \<Longrightarrow> x \<noteq> a \<Longrightarrow> x \<noteq> b \<Longrightarrow> post = []"
  by (cases pre) (auto simp: Cons_eq_append_conv)

lemma alert_is_last:
  "fst (listen_chain h src) = pre @ Alert t m # post \<Longrightarrow> post = []"
proof (cases "canOpenURL h src")
  case Rejected
  assume "fst (listen_chain h src) = pre @ Alert t m # post"
  with Rejected show ?thesis
    by (simp add: listen_chain_cases) (erule two_ends, simp)
next
  case (Fulfilled supported)
  assume e: "fst (listen_chain h src) = pre @ Alert t m # post"
  show ?thesis
  proof (cases supported)
    case False
    with e Fulfilled show ?thesis
      by (simp add: listen_chain_cases) (erule two_ends, simp)
  next
    case True
    show ?thesis
    proof (cases "openURL h src")
      case Rejected
      with e Fulfilled True show ?thesis
        by (simp add: listen_chain_cases) (erule three_ends, simp_all)
    next
      case (Fulfilled u)
      with e \<open>canOpenURL h src = Fulfilled supported\<close> True show ?thesis
        by (simp add: listen_chain_cases) (erule two_ends, simp)
    qed
  qed
qed

text \<open>
  Claim C5. The chain of a press always settles fulfilled, so no error leaves it;
  nothing follows an alert in the effects of the chain, so there is no second check
  and no second open; and the press leaves the state of the component, with its
  \<^verbatim>\<open>paused\<close> flag, as it was.
\<close>

theorem no_retry_no_propagation:
  "snd (listen_chain h src) = Fulfilled () \<and>
   (\<forall>pre t m post. fst (listen_chain h src) = pre @ Alert t m # post \<longrightarrow> post = []) \<and>
   fst (handle h p s PressListen) = s"
  using alert_is_last [of h src] by (simp add: listen_chain_settles handle_PressListen)

theorem no_retry_no_propagation_witness:
  "fst (listen_chain (example_host False (\<lambda>u. Fulfilled True) (\<lambda>u. Rejected)) ''file:a.mp3'') =
     [CanOpenURL ''file:a.mp3'', OpenURL ''file:a.mp3''] @
     Alert ''Problem opening the audio'' ''An unknown error occurred. Please try again.'' # [] \<and>
   snd (listen_chain (example_host False (\<lambda>u. Fulfilled True) (\<lambda>u. Rejected)) ''file:a.mp3'') =
     Fulfilled () \<and>
   fst (handle (example_host False (\<lambda>u. Fulfilled True) (\<lambda>u. Rejected))
          (example_props (Some ''file:a.mp3'') None False False) initial PressListen) = initial"
proof -
  let ?h = "example_host False (\<lambda>u. Fulfilled True) (\<lambda>u. Rejected)"
  let ?p = "example_props (Some ''file:a.mp3'') None False False"
  have "fst (listen_chain ?h ''file:a.mp3'') =
     [CanOpenURL ''file:a.mp3'', OpenURL ''file:a.mp3''] @
     Alert ''Problem opening the audio'' ''An unknown error occurred. Please try again.'' # []"
    by (simp add: listen_chain_cases example_host_def)
  with no_retry_no_propagation [of ?h "''file:a.mp3''" ?p initial] show ?thesis
    by blast
qed

section \<open>The Listen control and the upload flags\<close>

lemma run_disabled:
  "\<forall>(p, ev) \<in> set tr. isDisabled p \<Longrightarrow> snd (run h s tr) = []"
proof (induction tr arbitrary: s)
  case Nil
  show ?case by simp
next
  case (Cons a tr)
  obtain p ev where a: "a = (p, ev)" by (cases a)
  from Cons.prems a have d: "isDisabled p" and rest: "\<forall>(p, ev) \<in> set tr. isDisabled p"
    by simp_all
  have "snd (handle h p s ev) = []"
    using d by (cases ev) (simp_all add: handle_PressListen, simp_all add: handle_def)
  with Cons.IH [OF rest] show ?case
    unfolding a run_Cons by simp
qed

text \<open>
  Claim C9. \<^verbatim>\<open>isDisabled\<close> is \<^verbatim>\<open>isUploadFailed || isUploadInProgress\<close>, and the
  rendered tree holds the Listen control exactly when the Player is not disabled. So
  while an upload is in progress or has failed a press has no effect, and a history
  whose props are all of that kind has no effect at all: no URL-capability check and
  no open.
\<close>

theorem listen_only_when_enabled:
  "isDisabled p = (isUploadFailed p \<or> isUploadInProgress p) \<and>
   (\<exists>v. render h p s = Inr v \<and> (listen v \<noteq> None) = (\<not> isDisabled p)) \<and>
   (isUploadInProgress p \<or> isUploadFailed p \<longrightarrow> handle h p s PressListen = (s, [])) \<and>
   ((\<forall>(q, ev) \<in> set tr. isUploadInProgress q \<or> isUploadFailed q) \<longrightarrow>
      snd (run h s tr) = [])"
proof -
  obtain v where v: "render h p s = Inr v"
    using render_title_extension [of h p s] by blast
  from render_listen [OF v] v
  have a: "\<exists>v. render h p s = Inr v \<and> (listen v \<noteq> None) = (\<not> isDisabled p)"
    by blast
  have b: "isUploadInProgress p \<or> isUploadFailed p \<longrightarrow> handle h p s PressListen = (s, [])"
    by (auto simp: handle_PressListen isDisabled_def)
  have c: "(\<forall>(q, ev) \<in> set tr. isUploadInProgress q \<or> isUploadFailed q) \<longrightarrow>
      snd (run h s tr) = []"
  proof
    assume "\<forall>(q, ev) \<in> set tr. isUploadInProgress q \<or> isUploadFailed q"
    then have "\<forall>(q, ev) \<in> set tr. isDisabled q"
      by (auto simp: isDisabled_def)
    then show "snd (run h s tr) = []" by (rule run_disabled)
  qed
  show ?thesis using a b c by (simp add: isDisabled_def)
qed

theorem listen_only_when_enabled_witness:
  "isUploadInProgress (example_props (Some ''file:a.mp3'') (Some ''a.mp3'') True False) \<and>
   handle (example_host False (\<lambda>u. Fulfilled True) (\<lambda>u. Fulfilled ()))
     (example_props (Some ''file:a.mp3'') (Some ''a.mp3'') True False) initial PressListen =
     (initial, []) \<and>
   snd (run (example_host False (\<lambda>u. Fulfilled True) (\<lambda>u. Fulfilled ())) initial
     [(example_props (Some ''file:a.mp3'') (Some ''a.mp3'') True False, PressListen),
      (example_props (Some ''file:a.mp3'') (Some ''a.mp3'') False True, PressListen)]) = []"
proof -
  let ?h = "example_host False (\<lambda>u. Fulfilled True) (\<lambda>u. Fulfilled ())"
  let ?p = "example_props (Some ''file:a.mp3'') (Some ''a.mp3'') True False"
  let ?q = "example_props (Some ''file:a.mp3'') (Some ''a.mp3'') False True"
  have p: "isUploadInProgress ?p" and q: "isUploadFailed ?q"
    by (simp_all add: example_props_def)
  then have all: "\<forall>(q, ev) \<in> set [(?p, PressListen), (?q, PressListen)].
      isUploadInProgress q \<or> isUploadFailed q"
    by simp
  from listen_only_when_enabled [of ?p ?h initial "[(?p, PressListen), (?q, PressListen)]"]
  have "(isUploadInProgress ?p \<or> isUploadFailed ?p \<longrightarrow> handle ?h ?p initial PressListen = (initial, [])) \<and>
     ((\<forall>(q, ev) \<in> set [(?p, PressListen), (?q, PressListen)].
          isUploadInProgress q \<or> isUploadFailed q) \<longrightarrow>
      snd (run ?h initial [(?p, PressListen), (?q, PressListen)]) = [])"
    by (elim conjE) (intro conjI)
  with p all show ?thesis by blast
qed

text \<open>
  Claim C10. With both \<^verbatim>\<open>isUploadInProgress\<close> and \<^verbatim>\<open>isUploadFailed\<close> the subtitle
  is the message \<^verbatim>\<open>Uploading\<close> followed by U+2026, as it is whenever an upload is in
  progress; the failure message shows when the upload failed and none is in progress;
  the subtitle made from the extension shows when both flags are false, and in no
  other case.
\<close>

theorem subtitle_precedence:
  "\<exists>v ext. render h p s = Inr v \<and> title_extension h (fileName p) = Inr (titleText v, ext) \<and>
     (isUploadInProgress p \<and> isUploadFailed p \<longrightarrow>
        subtitleText v = i18n h (''Uploading'' @ ellipsis)) \<and>
     (isUploadInProgress p \<longrightarrow> subtitleText v = i18n h (''Uploading'' @ ellipsis)) \<and>
     (\<not> isUploadInProgress p \<and> isUploadFailed p \<longrightarrow>
        subtitleText v = i18n h ''Failed to insert audio file. Please tap for options.'') \<and>
     (\<not> isUploadInProgress p \<and> \<not> isUploadFailed p \<longrightarrow>
        subtitleText v = ext @ i18n h '' audio file'')"
proof -
  obtain v ext where v: "render h p s = Inr v"
    and t: "title_extension h (fileName p) = Inr (titleText v, ext)"
    and sub: "subtitleText v = getSubtitleValue h p ext"
    using render_title_extension [of h p s] by blast
  have "(isUploadInProgress p \<and> isUploadFailed p \<longrightarrow>
        subtitleText v = i18n h (''Uploading'' @ ellipsis)) \<and>
     (isUploadInProgress p \<longrightarrow> subtitleText v = i18n h (''Uploading'' @ ellipsis)) \<and>
     (\<not> isUploadInProgress p \<and> isUploadFailed p \<longrightarrow>
        subtitleText v = i18n h ''Failed to insert audio file. Please tap for options.'') \<and>
     (\<not> isUploadInProgress p \<and> \<not> isUploadFailed p \<longrightarrow>
        subtitleText v = ext @ i18n h '' audio file'')"
    by (simp add: sub getSubtitleValue_def)
  with v t show ?thesis by blast
qed

theorem subtitle_precedence_witness:
  "isUploadInProgress (example_props None (Some ''a.mp3'') True True) \<and>
   isUploadFailed (example_props None (Some ''a.mp3'') True True) \<and>
   (\<exists>v. render (example_host False (\<lambda>u. Rejected) (\<lambda>u. Rejected))
          (example_props None (Some ''a.mp3'') True True) initial = Inr v \<and>
        subtitleText v = ''Uploading'' @ [CHR 0xE2, CHR 0x80, CHR 0xA6])"
proof -
  let ?h = "example_host False (\<lambda>u. Rejected) (\<lambda>u. Rejected)"
  let ?p = "example_props None (Some ''a.mp3'') True True"
  have f: "isUploadInProgress ?p" "isUploadFailed ?p" by (simp_all add: example_props_def)
  have i: "i18n ?h (''Uploading'' @ ellipsis) = ''Uploading'' @ [CHR 0xE2, CHR 0x80, CHR 0xA6]"
    by (simp add: example_host_def ellipsis_def)
  from subtitle_precedence [of ?h ?p initial] f
  have "\<exists>v. render ?h ?p initial = Inr v \<and> subtitleText v = i18n ?h (''Uploading'' @ ellipsis)"
    by blast
  then show ?thesis unfolding i using f by simp
qed

section \<open>The exports of the page-break block\<close>

text \<open>
  Claim C6. The module exports \<^verbatim>\<open>name\<close>, the \<^verbatim>\<open>name\<close> field of the metadata,
  and \<^verbatim>\<open>settings\<close>, whose fields are exactly title (\<^verbatim>\<open>Page Break\<close>), description,
  icon, keywords (\<^verbatim>\<open>next page\<close> and \<^verbatim>\<open>pagination\<close>), example (an empty object),
  transforms, edit and save, in this order. The texts are the translations \<^verbatim>\<open>__\<close>
  gives.
\<close>

theorem page_break_exports:
  "get_prop (exports metadata tr) ''name'' = Some (get_prop metadata ''name'') \<and>
   get_prop (exports metadata tr) ''settings'' = Some (Some (JObject (settings tr))) \<and>
   map fst (settings tr) =
     [''title'', ''description'', ''icon'', ''keywords'', ''example'', ''transforms'',
      ''edit'', ''save''] \<and>
   get_prop (settings tr) ''title'' = Some (JString (tr ''Page Break'')) \<and>
   get_prop (settings tr) ''description'' =
     Some (JString (tr ''Separate your content into a multi-page experience.'')) \<and>
   get_prop (settings tr) ''icon'' = Some (Imported PageBreakIcon) \<and>
   get_prop (settings tr) ''keywords'' =
     Some (JArray [JString (tr ''next page''), JString (tr ''pagination'')]) \<and>
   get_prop (settings tr) ''example'' = Some (JObject []) \<and>
   get_prop (settings tr) ''transforms'' = Some (Imported Transforms) \<and>
   get_prop (settings tr) ''edit'' = Some (Imported Edit) \<and>
   get_prop (settings tr) ''save'' = Some (Imported Save)"
  by (simp add: exports_def name_def settings_def get_prop_def)

section \<open>The derived styles and the subtitle depend on the props only\<close>

text \<open>
  Claim C7. Two renders with equal \<^verbatim>\<open>fileName\<close>, \<^verbatim>\<open>source\<close>,
  \<^verbatim>\<open>isUploadInProgress\<close> and \<^verbatim>\<open>isUploadFailed\<close>, the same platform flag and the
  same colour scheme (the function \<^verbatim>\<open>getStylesFromColorScheme\<close>) give equal derived
  style objects and equal subtitle text, whatever the state of the component
  (\<^verbatim>\<open>paused\<close>, the player reference) and however the host's promises settle. The
  imported style sheet, translation function and \<^verbatim>\<open>toUpperCase\<close> are those of the
  program in both renders. The style of the button text, which the render function
  computes also when the Listen control is not rendered, is equal as well.
\<close>

theorem derived_deterministic:
  assumes "fileName p1 = fileName p2" and "source p1 = source p2"
    and "isUploadInProgress p1 = isUploadInProgress p2"
    and "isUploadFailed p1 = isUploadFailed p2"
    and "getStylesFromColorScheme p1 = getStylesFromColorScheme p2"
    and "isIOS h1 = isIOS h2"
    and "styles h1 = styles h2" and "i18n h1 = i18n h2" and "toUpperCase h1 = toUpperCase h2"
  shows "buttonTextStyle h1 = buttonTextStyle h2 \<and>
    (\<exists>v1 v2. render h1 p1 s1 = Inr v1 \<and> render h2 p2 s2 = Inr v2 \<and> derived v1 = derived v2)"
  using assms
  by (cases "fileName p2")
    (simp_all add: render_def Let_def title_extension_total derived_def getSubtitleValue_def
      isDisabled_def buttonTextStyle_def)

theorem derived_deterministic_witness:
  "fileName (example_props (Some ''file:a.mp3'') (Some ''a.mp3'') False True
        \<lparr>getStylesFromColorScheme := dark_scheme\<rparr>) =
     fileName (example_props (Some ''file:a.mp3'') (Some ''a.mp3'') False True
        \<lparr>getStylesFromColorScheme := dark_scheme\<rparr>) \<and>
   isIOS (example_host True (\<lambda>u. Rejected) (\<lambda>u. Rejected)) =
     isIOS (example_host True (\<lambda>u. Fulfilled True) (\<lambda>u. Fulfilled ())) \<and>
   initial \<noteq> \<lparr>paused = False, player = True\<rparr> \<and>
   (\<exists>v1 v2.
      render (example_host True (\<lambda>u. Rejected) (\<lambda>u. Rejected))
        (example_props (Some ''file:a.mp3'') (Some ''a.mp3'') False True
           \<lparr>getStylesFromColorScheme := dark_scheme\<rparr>) initial = Inr v1 \<and>
      render (example_host True (\<lambda>u. Fulfilled True) (\<lambda>u. Fulfilled ()))
        (example_props (Some ''file:a.mp3'') (Some ''a.mp3'') False True
           \<lparr>getStylesFromColorScheme := dark_scheme\<rparr>) \<lparr>paused = False, player = True\<rparr> = Inr v2 \<and>
      derived v1 = derived v2)"
proof -
  let ?h1 = "example_host True (\<lambda>u. Rejected) (\<lambda>u. Rejected)"
  let ?h2 = "example_host True (\<lambda>u. Fulfilled True) (\<lambda>u. Fulfilled ())"
  let ?p = "example_props (Some ''file:a.mp3'') (Some ''a.mp3'') False True
              \<lparr>getStylesFromColorScheme := dark_scheme\<rparr>"
  have h: "isIOS ?h1 = isIOS ?h2" "styles ?h1 = styles ?h2" "i18n ?h1 = i18n ?h2"
    "toUpperCase ?h1 = toUpperCase ?h2"
    by (simp_all add: example_host_def)
  have s: "initial \<noteq> \<lparr>paused = False, player = True\<rparr>" by (simp add: initial_def)
  from derived_deterministic [OF refl refl refl refl refl h,
      of ?p initial "\<lparr>paused = False, player = True\<rparr>"]
  show ?thesis using h s by simp
qed

end
